theory Spec2Isabelle
  imports Complex_Main
begin

section \<open>Tracking results: simplecv/tracking/track_class.py\<close>

text \<open>
  The module holds the result classes of the trackers: \<^verbatim>\<open>Track\<close> and its four subclasses
  \<^verbatim>\<open>CAMShiftTrack\<close>, \<^verbatim>\<open>LKTrack\<close>, \<^verbatim>\<open>SURFTrack\<close> and \<^verbatim>\<open>MFTrack\<close>. The embedding follows the
  Python text:

  \<^item> an object is a record of its attributes; a subclass is a record extension, so a
    method of \<^verbatim>\<open>Track\<close> is a function on the record scheme and applies to every subclass;
  \<^item> a constructor returns \<open>error + object\<close>: \<open>Inl\<close> is the exception it raises;
  \<^item> Python's \<^verbatim>\<open>None\<close> is \<open>None\<close> of an option type; an argument with a default value is
    an option as well, \<open>None\<close> standing for "not supplied";
  \<^item> an attribute that a constructor may leave unassigned has type \<open>'a attr\<close>: reading
    it while \<open>Unset\<close> raises \<^verbatim>\<open>AttributeError\<close>;
  \<^item> the numbers of a bounding box have a type \<open>'n\<close> with the operations the code
    applies to them, so that a statement about \<^verbatim>\<open>Track\<close> holds for each reading of \<^verbatim>\<open>/\<close>.
    The module is Python 2 code (its docstrings use the print statement, its collaborators
    are those of OpenCV 2.4), where \<^verbatim>\<open>/\<close> on two ints is floor division: that is \<open>div\<close> at
    type \<open>int\<close>. At a field such as \<open>real\<close> the same constant is the exact quotient, the
    idealised reading of \<^verbatim>\<open>/\<close> on floats (and of a true division on ints);
  \<^item> float values that the code only compares and truncates (key point coordinates)
    are \<open>real\<close>: comparison and truncation of finite floats are exact;
  \<^item> the clock, the k-means routine of OpenCV and the string formatting operator
    \<^verbatim>\<open>%\<close> are arguments of the functions that use them;
  \<^item> a method that draws returns the calls it makes on the drawing layer of the held
    frame, in order.

  A parameter whose Python name is also the name of an attribute carries a prime
  (\<open>bb'\<close> for the parameter \<^verbatim>\<open>bb\<close>), because record fields are constants.
\<close>

subsection \<open>Collaborators\<close>

datatype error = ValueError | AttributeError | cv2_error

datatype 'a attr = Unset | Stored 'a

text \<open>
  Modelled from the spec: the colour class \<^verbatim>\<open>simplecv.color.Color\<close> is not among the sources.
  A colour is "either a BGR tuple or a member of the Color class"; the one member the module
  names is \<^verbatim>\<open>Color.GREEN\<close>, the "fixed green" default of the spec.
\<close>

datatype color = GREEN | BGR int int int

text \<open>
  Modelled from the spec: the frame class is not among the sources. The spec gives it "a
  size query returning (width, height)" and a drawing layer "exposing circle, rectangle, and
  text-overlay primitives with font-size control". Of the layer's calls, those of the methods
  embedded below are constructors: \<^verbatim>\<open>circle(center, radius, color, width)\<close>,
  \<^verbatim>\<open>set_font_size(size)\<close> and \<^verbatim>\<open>text(text, pos, color)\<close>.
\<close>

record 'px Image =
  size_tuple :: "int \<times> int"
  pixels :: 'px

datatype 'p dl_call =
  Circle 'p int color int
  | Set_font_size int
  | Text string "int \<times> int" color

text \<open>A \<^verbatim>\<open>cv2.KeyPoint\<close>; the module reads its attribute \<^verbatim>\<open>pt\<close>, a pair of floats.\<close>

record keypoint =
  pt :: "real \<times> real"

text \<open>The value of a parameter with a default: the default when no argument is supplied.\<close>

fun or_default :: "'a \<Rightarrow> 'a option \<Rightarrow> 'a" where
  "or_default d None = d"
| "or_default d (Some v) = v"

text \<open>Sequencing of calls that may raise: the first exception ends the computation.\<close>

definition and_then :: "error + 'a \<Rightarrow> ('a \<Rightarrow> error + 'b) \<Rightarrow> error + 'b" where
  "and_then r f = (case r of Inl e \<Rightarrow> Inl e | Inr v \<Rightarrow> f v)"

text \<open>
  The builtins \<^verbatim>\<open>max\<close> and \<^verbatim>\<open>min\<close> over a sequence (\<^verbatim>\<open>ValueError\<close> on an empty one), and
  \<^verbatim>\<open>int\<close> on a float, which truncates toward zero.
\<close>

fun py_max :: "real list \<Rightarrow> error + real" where
  "py_max [] = Inl ValueError"
| "py_max (v # vs) = Inr (fold max vs v)"

fun py_min :: "real list \<Rightarrow> error + real" where
  "py_min [] = Inl ValueError"
| "py_min (v # vs) = Inr (fold min vs v)"

definition py_int :: "real \<Rightarrow> int" where
  "py_int r = (if 0 \<le> r then \<lfloor>r\<rfloor> else \<lceil>r\<rceil>)"

subsection \<open>Track\<close>

text \<open>
  \<^verbatim>\<open>Track.__init__\<close> calls \<^verbatim>\<open>self.getCenter()\<close> when only \<^verbatim>\<open>bb\<close>, \<^verbatim>\<open>image\<close>, \<^verbatim>\<open>bb_x\<close>, \<^verbatim>\<open>bb_y\<close>,
  \<^verbatim>\<open>w\<close> and \<^verbatim>\<open>h\<close> are assigned. These six attributes are the record \<open>track_box\<close>, the
  object as \<^verbatim>\<open>getCenter\<close> first sees it; \<open>track\<close> extends it by the attributes assigned
  afterwards. The attribute \<^verbatim>\<open>image\<close> is the field \<open>image'\<close>.
\<close>

record ('px, 'n) track_box =
  bb :: "'n list"
  image' :: "'px Image"
  bb_x :: 'n
  bb_y :: 'n
  w :: 'n
  h :: 'n

record ('px, 'n) track = "('px, 'n) track_box" +
  x :: 'n
  y :: 'n
  center :: "'n \<times> 'n"
  sizeRatio :: 'n
  vel :: "'n \<times> 'n"
  rt_vel :: "'n \<times> 'n"
  time :: real
  cv2numpy :: "'px Image"
  predict_pt :: "'n \<times> 'n"
  state_pt :: "'n \<times> 'n"

definition getCenter :: "('px, 'n::{numeral,divide}, 'z) track_box_scheme \<Rightarrow> 'n \<times> 'n" where
  "getCenter self = (bb_x self + w self div 2, bb_y self + h self div 2)"

text \<open>
  The tuple assignment \<^verbatim>\<open>self.bb_x, self.bb_y, self.w, self.h = self.bb\<close> raises
  \<^verbatim>\<open>ValueError\<close> unless the box has four components. \<open>now\<close> is the value of
  \<^verbatim>\<open>time.time()\<close>.
\<close>

definition Track_init ::
  "'px Image \<Rightarrow> 'n::{zero,numeral,divide} list \<Rightarrow> real \<Rightarrow> error + ('px, 'n) track" where
  "Track_init img bb' now =
     (case bb' of
        [b0, b1, b2, b3] \<Rightarrow>
          (let c = getCenter \<lparr>bb = bb', image' = img, bb_x = b0, bb_y = b1, w = b2, h = b3\<rparr>
           in Inr \<lparr>bb = bb', image' = img, bb_x = b0, bb_y = b1, w = b2, h = b3,
                    x = fst c, y = snd c, center = c,
                    sizeRatio = 1,
                    vel = (0, 0),
                    rt_vel = (0, 0),
                    time = now,
                    cv2numpy = img,
                    predict_pt = (0, 0),
                    state_pt = (0, 0)\<rparr>)
      | _ \<Rightarrow> Inl ValueError)"

definition area :: "('px, 'n::times, 'z) track_box_scheme \<Rightarrow> 'n" where
  "area self = w self * h self"

definition getImage :: "('px, 'n, 'z) track_box_scheme \<Rightarrow> 'px Image" where
  "getImage self = image' self"

definition getBB :: "('px, 'n, 'z) track_box_scheme \<Rightarrow> 'n list" where
  "getBB self = bb self"

text \<open>
  The text overlays. \<^verbatim>\<open>if not pos\<close> holds for \<^verbatim>\<open>None\<close>; \<^verbatim>\<open>if not size\<close> holds for \<^verbatim>\<open>None\<close>
  and for \<open>0\<close>. \<open>fmt\<close> is the operator \<^verbatim>\<open>%\<close>, applied to the format string and the
  values.
\<close>

definition showCoordinates ::
  "(string \<Rightarrow> 'n list \<Rightarrow> string) \<Rightarrow> ('px, 'n, 'z) track_scheme \<Rightarrow>
     (int \<times> int) option \<Rightarrow> color option \<Rightarrow> int option \<Rightarrow> 'p dl_call list" where
  "showCoordinates fmt self pos color size' =
     (let f = self;
          img = image' f;
          pos1 = (case pos of
                    None \<Rightarrow> (let imgsize = size_tuple img in (fst imgsize - 120, 10))
                  | Some p \<Rightarrow> p);
          size1 = (case size' of None \<Rightarrow> 16 | Some s \<Rightarrow> if s = 0 then 16 else s);
          text = fmt ''x = %d  y = %d'' [x f, y f]
      in [Set_font_size size1, Text text pos1 (or_default GREEN color)])"

definition showSizeRatio ::
  "(string \<Rightarrow> 'n list \<Rightarrow> string) \<Rightarrow> ('px, 'n, 'z) track_scheme \<Rightarrow>
     (int \<times> int) option \<Rightarrow> color option \<Rightarrow> int option \<Rightarrow> 'p dl_call list" where
  "showSizeRatio fmt self pos color size' =
     (let f = self;
          img = image' f;
          pos1 = (case pos of
                    None \<Rightarrow> (let imgsize = size_tuple img in (fst imgsize - 120, 30))
                  | Some p \<Rightarrow> p);
          size1 = (case size' of None \<Rightarrow> 16 | Some s \<Rightarrow> if s = 0 then 16 else s);
          text = fmt ''size = %f'' [sizeRatio f]
      in [Set_font_size size1, Text text pos1 (or_default GREEN color)])"

definition showPixelVelocity ::
  "(string \<Rightarrow> 'n list \<Rightarrow> string) \<Rightarrow> ('px, 'n, 'z) track_scheme \<Rightarrow>
     (int \<times> int) option \<Rightarrow> color option \<Rightarrow> int option \<Rightarrow> 'p dl_call list" where
  "showPixelVelocity fmt self pos color size' =
     (let f = self;
          img = image' f;
          v = vel f;
          pos1 = (case pos of
                    None \<Rightarrow> (let imgsize = size_tuple img in (fst imgsize - 120, 90))
                  | Some p \<Rightarrow> p);
          size1 = (case size' of None \<Rightarrow> 16 | Some s \<Rightarrow> if s = 0 then 16 else s);
          text = fmt ''Vx = %.2f Vy = %.2f'' [fst v, snd v]
      in [Set_font_size size1,
          Text text pos1 (or_default GREEN color),
          Text ''in pixels/frame'' (fst pos1, snd pos1 + size1) (or_default GREEN color)])"

definition showPixelVelocityRT ::
  "(string \<Rightarrow> 'n list \<Rightarrow> string) \<Rightarrow> ('px, 'n, 'z) track_scheme \<Rightarrow>
     (int \<times> int) option \<Rightarrow> color option \<Rightarrow> int option \<Rightarrow> 'p dl_call list" where
  "showPixelVelocityRT fmt self pos color size' =
     (let f = self;
          img = image' f;
          vel_rt = rt_vel f;
          pos1 = (case pos of
                    None \<Rightarrow> (let imgsize = size_tuple img in (fst imgsize - 120, 50))
                  | Some p \<Rightarrow> p);
          size1 = (case size' of None \<Rightarrow> 16 | Some s \<Rightarrow> if s = 0 then 16 else s);
          text = fmt ''Vx = %.2f Vy = %.2f'' [fst vel_rt, snd vel_rt]
      in [Set_font_size size1,
          Text text pos1 (or_default GREEN color),
          Text ''in pixels/second'' (fst pos1, snd pos1 + size1) (or_default GREEN color)])"

definition processTrack :: "('px, 'n, 'z) track_box_scheme \<Rightarrow> ('px Image \<Rightarrow> 'r) \<Rightarrow> 'r" where
  "processTrack self func = func (image' self)"

definition getPredictionPoints :: "('px, 'n, 'z) track_scheme \<Rightarrow> 'n \<times> 'n" where
  "getPredictionPoints self = predict_pt self"

definition getCorrectedPoints :: "('px, 'n, 'z) track_scheme \<Rightarrow> 'n \<times> 'n" where
  "getCorrectedPoints self = state_pt self"

subsection \<open>CAMShiftTrack\<close>

record ('px, 'n, 'e) camshift_track = "('px, 'n) track" +
  ellipse :: 'e

definition CAMShiftTrack_init ::
  "'px Image \<Rightarrow> 'n::{zero,numeral,divide} list \<Rightarrow> 'e \<Rightarrow> real \<Rightarrow>
     error + ('px, 'n, 'e) camshift_track" where
  "CAMShiftTrack_init img bb' ellipse' now =
     and_then (Track_init img bb' now) (\<lambda>self.
       Inr (track.extend self (camshift_track.fields ellipse')))"

definition getEllipse :: "('px, 'n, 'e, 'z) camshift_track_scheme \<Rightarrow> 'e" where
  "getEllipse self = ellipse self"

subsection \<open>LKTrack\<close>

record ('px, 'n, 'p) lk_track = "('px, 'n) track" +
  pts :: "'p list option"

definition LKTrack_init ::
  "'px Image \<Rightarrow> 'n::{zero,numeral,divide} list \<Rightarrow> 'p list option \<Rightarrow> real \<Rightarrow>
     error + ('px, 'n, 'p) lk_track" where
  "LKTrack_init img bb' pts' now =
     and_then (Track_init img bb' now) (\<lambda>self.
       Inr (track.extend self (lk_track.fields pts')))"

definition LKTrack_getTrackedPoints :: "('px, 'n, 'p, 'z) lk_track_scheme \<Rightarrow> 'p list option" where
  "LKTrack_getTrackedPoints self = lk_track.pts self"

definition LKTrack_drawTrackerPoints ::
  "('px, 'n, 'p, 'z) lk_track_scheme \<Rightarrow> color option \<Rightarrow> int option \<Rightarrow> int option \<Rightarrow>
     'p dl_call list" where
  "LKTrack_drawTrackerPoints self color radius thickness =
     (case lk_track.pts self of
        None \<Rightarrow> []
      | Some ps \<Rightarrow>
          map (\<lambda>p. Circle p (or_default 1 radius) (or_default GREEN color)
                      (or_default 1 thickness)) ps)"

subsection \<open>MFTrack\<close>

record ('px, 'n) mf_track = "('px, 'n) track" +
  shift :: 'n

definition MFTrack_init ::
  "'px Image \<Rightarrow> 'n::{zero,numeral,divide} list \<Rightarrow> 'n \<Rightarrow> real \<Rightarrow> error + ('px, 'n) mf_track" where
  "MFTrack_init img bb' shift' now =
     and_then (Track_init img bb' now) (\<lambda>self.
       Inr (track.extend self (mf_track.fields shift')))"

definition getShift :: "('px, 'n, 'z) mf_track_scheme \<Rightarrow> 'n" where
  "getShift self = shift self"

definition showShift ::
  "(string \<Rightarrow> 'n list \<Rightarrow> string) \<Rightarrow> ('px, 'n, 'z) mf_track_scheme \<Rightarrow>
     (int \<times> int) option \<Rightarrow> color option \<Rightarrow> int option \<Rightarrow> 'p dl_call list" where
  "showShift fmt self pos color size' =
     (let f = self;
          img = image' f;
          sh = shift f;
          pos1 = (case pos of
                    None \<Rightarrow> (let imgsize = size_tuple img in (fst imgsize - 120, 50))
                  | Some p \<Rightarrow> p);
          size1 = (case size' of None \<Rightarrow> 16 | Some s \<Rightarrow> if s = 0 then 16 else s);
          text = fmt ''Shift = %.2f'' [sh]
      in [Set_font_size size1,
          Text text pos1 (or_default GREEN color),
          Text ''in pixels/second'' (fst pos1, snd pos1 + size1) (or_default GREEN color)])"

subsection \<open>SURFTrack\<close>

text \<open>
  The first branch of \<^verbatim>\<open>SURFTrack.__init__\<close> returns before any attribute of the subclass is
  assigned, so each of them has type \<open>'a attr\<close>. The box of a \<^verbatim>\<open>SURFTrack\<close> is made of
  Python ints. \<^verbatim>\<open>sd\<close> and \<^verbatim>\<open>td\<close> are the arguments the constructor compares with \<^verbatim>\<open>None\<close>.
\<close>

record ('px, 'det, 'des, 'kps, 'dm) surf_track = "('px, int) track" +
  pts :: "(real \<times> real) list option attr"
  templateImg :: "'px Image attr"
  skp :: "'kps attr"
  sd :: "'dm option attr"
  tkp :: "'kps attr"
  td :: "'dm option attr"
  detector :: "'det attr"
  descriptor :: "'des attr"

text \<open>A \<^verbatim>\<open>SURFTrack\<close> on which only \<^verbatim>\<open>Track.__init__\<close> has run.\<close>

definition SURFTrack_bare ::
  "('px, int) track \<Rightarrow> ('px, 'det, 'des, 'kps, 'dm) surf_track" where
  "SURFTrack_bare self =
     track.extend self (surf_track.fields Unset Unset Unset Unset Unset Unset Unset Unset)"

text \<open>
  \<open>kmeans\<close> is the call \<^verbatim>\<open>cv2.kmeans(np.asarray(np_pts, dtype=np.float32), K=1, ...)\<close> on the
  array of the points: it raises, or returns a triple, which the constructor binds to
  \<^verbatim>\<open>t, pts, center\<close> and never reads. \<^verbatim>\<open>np_pts[:, 0]\<close> and \<^verbatim>\<open>np_pts[:, 1]\<close> are the columns of
  the array.
\<close>

definition SURFTrack_init ::
  "((real \<times> real) list \<Rightarrow> error + 'r \<times> 'l \<times> 'c) \<Rightarrow> 'px Image \<Rightarrow> keypoint list \<Rightarrow>
     'det \<Rightarrow> 'des \<Rightarrow> 'px Image \<Rightarrow> 'kps \<Rightarrow> 'dm option \<Rightarrow> 'kps \<Rightarrow> 'dm option \<Rightarrow> real \<Rightarrow>
     error + ('px, 'det, 'des, 'kps, 'dm) surf_track" where
  "SURFTrack_init kmeans img new_pts detector' descriptor' templateImg' skp' sd' tkp' td' now =
     (if td' = None then
        and_then (Track_init img [1, 1, 1, 1] now) (\<lambda>self.
          Inr (SURFTrack_bare self))
      else if length new_pts < 1 then
        and_then (Track_init img [1, 1, 1, 1] now) (\<lambda>self.
          Inr ((SURFTrack_bare self)
                 \<lparr>pts := Stored None,
                  templateImg := Stored templateImg',
                  skp := Stored skp',
                  sd := Stored sd',
                  tkp := Stored tkp',
                  td := Stored td',
                  detector := Stored detector',
                  descriptor := Stored descriptor'\<rparr>))
      else if sd' = None then
        and_then (Track_init img [1, 1, 1, 1] now) (\<lambda>self.
          Inr ((SURFTrack_bare self)
                 \<lparr>pts := Stored None,
                  templateImg := Stored templateImg',
                  skp := Stored skp',
                  sd := Stored sd',
                  tkp := Stored tkp',
                  td := Stored td',
                  detector := Stored detector',
                  descriptor := Stored descriptor'\<rparr>))
      else
        (let np_pts = map pt new_pts in
         and_then (kmeans np_pts) (\<lambda>(t, pts', center').
         and_then (py_max (map fst np_pts)) (\<lambda>mx. let max_x = py_int mx in
         and_then (py_min (map fst np_pts)) (\<lambda>mn. let min_x = py_int mn in
         and_then (py_max (map snd np_pts)) (\<lambda>my. let max_y = py_int my in
         and_then (py_min (map snd np_pts)) (\<lambda>ny. let min_y = py_int ny in
         (let bb' = [min_x - 5, min_y - 5, max_x - min_x + 5, max_y - min_y + 5] in
          and_then (Track_init img bb' now) (\<lambda>self.
            Inr ((SURFTrack_bare self)
                   \<lparr>templateImg := Stored templateImg',
                    skp := Stored skp',
                    sd := Stored sd',
                    tkp := Stored tkp',
                    td := Stored td',
                    pts := Stored (Some np_pts),
                    detector := Stored detector',
                    descriptor := Stored descriptor'\<rparr>))))))))))"

definition SURFTrack_getTrackedPoints ::
  "('px, 'det, 'des, 'kps, 'dm, 'z) surf_track_scheme \<Rightarrow> error + (real \<times> real) list option" where
  "SURFTrack_getTrackedPoints self =
     (case surf_track.pts self of Unset \<Rightarrow> Inl AttributeError | Stored v \<Rightarrow> Inr v)"

definition SURFTrack_drawTrackerPoints ::
  "('px, 'det, 'des, 'kps, 'dm, 'z) surf_track_scheme \<Rightarrow>
     color option \<Rightarrow> int option \<Rightarrow> int option \<Rightarrow> error + (real \<times> real) dl_call list" where
  "SURFTrack_drawTrackerPoints self color radius thickness =
     (case surf_track.pts self of
        Unset \<Rightarrow> Inl AttributeError
      | Stored None \<Rightarrow> Inr []
      | Stored (Some ps) \<Rightarrow>
          Inr (map (\<lambda>p. Circle p (or_default 1 radius) (or_default GREEN color)
                           (or_default 1 thickness)) ps))"

definition getDetector :: "('px, 'det, 'des, 'kps, 'dm, 'z) surf_track_scheme \<Rightarrow> error + 'det" where
  "getDetector self = (case detector self of Unset \<Rightarrow> Inl AttributeError | Stored v \<Rightarrow> Inr v)"

definition getDescriptor :: "('px, 'det, 'des, 'kps, 'dm, 'z) surf_track_scheme \<Rightarrow> error + 'des" where
  "getDescriptor self = (case descriptor self of Unset \<Rightarrow> Inl AttributeError | Stored v \<Rightarrow> Inr v)"

definition getImageKeyPoints :: "('px, 'det, 'des, 'kps, 'dm, 'z) surf_track_scheme \<Rightarrow> error + 'kps" where
  "getImageKeyPoints self = (case skp self of Unset \<Rightarrow> Inl AttributeError | Stored v \<Rightarrow> Inr v)"

definition getImageDescriptor ::
  "('px, 'det, 'des, 'kps, 'dm, 'z) surf_track_scheme \<Rightarrow> error + 'dm option" where
  "getImageDescriptor self = (case sd self of Unset \<Rightarrow> Inl AttributeError | Stored v \<Rightarrow> Inr v)"

definition getTemplateKeyPoints ::
  "('px, 'det, 'des, 'kps, 'dm, 'z) surf_track_scheme \<Rightarrow> error + 'kps" where
  "getTemplateKeyPoints self = (case tkp self of Unset \<Rightarrow> Inl AttributeError | Stored v \<Rightarrow> Inr v)"

definition getTemplateDescriptor ::
  "('px, 'det, 'des, 'kps, 'dm, 'z) surf_track_scheme \<Rightarrow> error + 'dm option" where
  "getTemplateDescriptor self = (case td self of Unset \<Rightarrow> Inl AttributeError | Stored v \<Rightarrow> Inr v)"

definition getTemplateImage ::
  "('px, 'det, 'des, 'kps, 'dm, 'z) surf_track_scheme \<Rightarrow> error + 'px Image" where
  "getTemplateImage self =
     (case templateImg self of Unset \<Rightarrow> Inl AttributeError | Stored v \<Rightarrow> Inr v)"

subsection \<open>The box of a SURFTrack as the specification words it\<close>

text \<open>
  The specification gives the box of a \<^verbatim>\<open>SURFTrack\<close> built from valid input as
  \<open>(min_x - 5, min_y - 5, max_x - min_x + 5, max_y - min_y + 5)\<close>, "where min/max are taken
  over the x and y coordinates of the match points". \<open>claimed_box\<close> is that formula, read
  as it is written, over the coordinates themselves; it is compared below with the box the
  constructor computes.
\<close>

definition claimed_box :: "(real \<times> real) list \<Rightarrow> real list" where
  "claimed_box ps =
     (let min_x = Min (fst ` set ps); max_x = Max (fst ` set ps);
          min_y = Min (snd ` set ps); max_y = Max (snd ` set ps)
      in [min_x - 5, min_y - 5, max_x - min_x + 5, max_y - min_y + 5])"

section \<open>Properties\<close>

subsection \<open>Basic facts\<close>

lemma and_then_simps [simp]:
  "and_then (Inr v) f = f v"
  "and_then (Inl e) f = Inl e"
  by (simp_all add: and_then_def)

lemma and_then_eq_Inr:
  "and_then r f = Inr v \<longleftrightarrow> (\<exists>u. r = Inr u \<and> f u = Inr v)"
  by (cases r) simp_all

lemma py_max_Max: "vs \<noteq> [] \<Longrightarrow> py_max vs = Inr (Max (set vs))"
proof (cases vs)
  case (Cons v us)
  then show ?thesis using Max.set_eq_fold [of v us] by simp
qed simp

lemma py_min_Min: "vs \<noteq> [] \<Longrightarrow> py_min vs = Inr (Min (set vs))"
proof (cases vs)
  case (Cons v us)
  then show ?thesis using Min.set_eq_fold [of v us] by simp
qed simp

lemma of_int_py_int: "r \<in> \<int> \<Longrightarrow> of_int (py_int r) = r"
  by (auto simp: py_int_def elim!: Ints_cases)

text \<open>\<^verbatim>\<open>Track.__init__\<close> returns exactly on the boxes of four components.\<close>

lemma Track_init_box4:
  "Track_init img [b0, b1, b2, b3] now =
     Inr \<lparr>bb = [b0, b1, b2, b3], image' = img, bb_x = b0, bb_y = b1, w = b2, h = b3,
          x = b0 + b2 div 2, y = b1 + b3 div 2, center = (b0 + b2 div 2, b1 + b3 div 2),
          sizeRatio = 1, vel = (0, 0), rt_vel = (0, 0), time = now, cv2numpy = img,
          predict_pt = (0, 0), state_pt = (0, 0)\<rparr>"
  by (simp add: Track_init_def getCenter_def)

lemma Track_init_Inr_iff:
  "Track_init img box now = Inr t \<longleftrightarrow>
     (\<exists>b0 b1 b2 b3. box = [b0, b1, b2, b3] \<and>
        t = \<lparr>bb = [b0, b1, b2, b3], image' = img, bb_x = b0, bb_y = b1, w = b2, h = b3,
              x = b0 + b2 div 2, y = b1 + b3 div 2, center = (b0 + b2 div 2, b1 + b3 div 2),
              sizeRatio = 1, vel = (0, 0), rt_vel = (0, 0), time = now, cv2numpy = img,
              predict_pt = (0, 0), state_pt = (0, 0)\<rparr>)"
  by (auto simp: Track_init_def Let_def getCenter_def split: list.splits)

lemma Track_init_raises:
  "length box \<noteq> 4 \<Longrightarrow> Track_init img box now = Inl ValueError"
  by (auto simp: Track_init_def split: list.splits)

lemma Track_init_attrs:
  assumes "Track_init img box now = Inr t"
  shows "bb t = box" and "image' t = img"
    and "vel t = (0, 0)" and "rt_vel t = (0, 0)"
    and "predict_pt t = (0, 0)" and "state_pt t = (0, 0)"
  using assms by (auto simp: Track_init_Inr_iff)

text \<open>
  The division of the centre at work: floor division on a box of ints, the exact quotient on
  a box over a field.
\<close>

lemma Track_center_examples:
  "map_sum id center (Track_init img [0, 0, 3, 5 :: int] now) = Inr (1, 2)"
  "map_sum id center (Track_init img [0, 0, 3, 5 :: real] now) = Inr (3 / 2, 5 / 2)"
  "map_sum id center (Track_init img [100, 100, 50, 50 :: int] now) = Inr (125, 125)"
  "map_sum id area (Track_init img [100, 100, 50, 50 :: int] now) = Inr 2500"
  by (simp_all add: Track_init_box4 area_def)

text \<open>The three branches of \<^verbatim>\<open>SURFTrack.__init__\<close>, by the condition that selects each.\<close>

lemma SURFTrack_init_no_template:
  "SURFTrack_init kmeans img new_pts det des tmpl skp' sd' tkp' None now =
     and_then (Track_init img [1, 1, 1, 1] now) (\<lambda>self. Inr (SURFTrack_bare self))"
  by (simp add: SURFTrack_init_def)

lemma SURFTrack_init_degenerate:
  assumes "td' \<noteq> None" and "new_pts = [] \<or> sd' = None"
  shows "SURFTrack_init kmeans img new_pts det des tmpl skp' sd' tkp' td' now =
     and_then (Track_init img [1, 1, 1, 1] now) (\<lambda>self.
       Inr ((SURFTrack_bare self)
              \<lparr>pts := Stored None, templateImg := Stored tmpl, skp := Stored skp',
               sd := Stored sd', tkp := Stored tkp', td := Stored td',
               detector := Stored det, descriptor := Stored des\<rparr>))"
  using assms by (auto simp add: SURFTrack_init_def)

lemma SURFTrack_init_valid:
  assumes "td' \<noteq> None" and "new_pts \<noteq> []" and "sd' \<noteq> None"
  shows "SURFTrack_init kmeans img new_pts det des tmpl skp' sd' tkp' td' now =
     and_then (kmeans (map pt new_pts)) (\<lambda>k.
     and_then
       (Track_init img
          (let min_x = py_int (Min (fst ` pt ` set new_pts));
               max_x = py_int (Max (fst ` pt ` set new_pts));
               min_y = py_int (Min (snd ` pt ` set new_pts));
               max_y = py_int (Max (snd ` pt ` set new_pts))
           in [min_x - 5, min_y - 5, max_x - min_x + 5, max_y - min_y + 5]) now)
       (\<lambda>self.
          Inr ((SURFTrack_bare self)
                 \<lparr>templateImg := Stored tmpl, skp := Stored skp', sd := Stored sd',
                  tkp := Stored tkp', td := Stored td', pts := Stored (Some (map pt new_pts)),
                  detector := Stored det, descriptor := Stored des\<rparr>)))"
proof -
  from assms obtain d s where "td' = Some d" and "sd' = Some s" by auto
  moreover from assms have "length new_pts < 1 \<longleftrightarrow> False" by (cases new_pts) simp_all
  ultimately show ?thesis
    by (cases "kmeans (map pt new_pts)")
       (simp_all add: SURFTrack_init_def Let_def py_max_Max py_min_Min image_image
          split: prod.splits)
qed

text \<open>
  On valid input the constructor returns when the k-means call returns, and raises what that
  call raises.
\<close>

lemma SURFTrack_init_returns:
  assumes "td' \<noteq> None" and "new_pts \<noteq> []" and "sd' \<noteq> None"
    and "kmeans (map pt new_pts) = Inr k"
  shows "\<exists>self. SURFTrack_init kmeans img new_pts det des tmpl skp' sd' tkp' td' now = Inr self"
  using assms by (simp add: SURFTrack_init_valid Let_def Track_init_box4)

lemma SURFTrack_init_raises:
  assumes "td' \<noteq> None" and "new_pts \<noteq> []" and "sd' \<noteq> None"
    and "kmeans (map pt new_pts) = Inl e"
  shows "SURFTrack_init kmeans img new_pts det des tmpl skp' sd' tkp' td' now = Inl e"
  using assms by (simp add: SURFTrack_init_valid)

text \<open>In every branch the \<^verbatim>\<open>Track\<close> part of the object is what \<^verbatim>\<open>Track.__init__\<close> made.\<close>

lemma SURFTrack_init_base:
  assumes "SURFTrack_init kmeans img new_pts det des tmpl skp' sd' tkp' td' now = Inr self"
  shows "\<exists>box. Track_init img box now = Inr (track.truncate self)"
proof (cases "td' = None")
  case True
  with assms show ?thesis
    by (auto simp: SURFTrack_init_no_template and_then_eq_Inr SURFTrack_bare_def track.defs
          Track_init_Inr_iff)
next
  case td: False
  show ?thesis
  proof (cases "new_pts = [] \<or> sd' = None")
    case True
    with td assms show ?thesis
      by (auto simp: SURFTrack_init_degenerate and_then_eq_Inr SURFTrack_bare_def track.defs
            Track_init_Inr_iff)
  next
    case False
    with td assms show ?thesis
      by (auto simp: SURFTrack_init_valid and_then_eq_Inr SURFTrack_bare_def track.defs
            Track_init_Inr_iff Let_def)
  qed
qed

subsection \<open>Track and its plain subclasses\<close>

text \<open>
  Claim C4. For every frame and every box of four components \<open>(b0, b1, b2, b3)\<close>, the
  constructor returns a track whose \<^verbatim>\<open>center\<close> (and the value of \<^verbatim>\<open>getCenter\<close>) is
  \<open>(b0 + b2 / 2, b1 + b3 / 2)\<close> and whose \<^verbatim>\<open>area\<close> is \<open>b2 * b3\<close>. The division is that of the
  number type of the box, printed \<open>div\<close>: floor division on ints, as the specification's own
  expression \<^verbatim>\<open>x + w/2\<close> computes in the language of the module.
\<close>

theorem Track_center_area:
  fixes b0 :: "'n::{zero,numeral,divide,times}"
  shows "\<exists>t. Track_init img [b0, b1, b2, b3] now = Inr t
           \<and> center t = (b0 + b2 div 2, b1 + b3 div 2)
           \<and> getCenter t = (b0 + b2 div 2, b1 + b3 div 2)
           \<and> area t = b2 * b3"
  by (simp add: Track_init_box4 getCenter_def area_def)

text \<open>
  Claim C5. A track that \<^verbatim>\<open>Track\<close>, \<^verbatim>\<open>CAMShiftTrack\<close>, \<^verbatim>\<open>LKTrack\<close> or \<^verbatim>\<open>MFTrack\<close> constructed
  from a box returns that very box from \<^verbatim>\<open>getBB\<close>. \<^verbatim>\<open>SURFTrack\<close> takes no box: it computes
  one and hands it to \<^verbatim>\<open>Track.__init__\<close>, and \<^verbatim>\<open>getBB\<close> returns the box so handed over.
\<close>

theorem getBB_returns_box:
  "(Track_init img box now = Inr t \<longrightarrow> getBB t = box)
   \<and> (CAMShiftTrack_init img box e now = Inr c \<longrightarrow> getBB c = box)
   \<and> (LKTrack_init img box ps now = Inr l \<longrightarrow> getBB l = box)
   \<and> (MFTrack_init img box sh now = Inr m \<longrightarrow> getBB m = box)
   \<and> (SURFTrack_init kmeans img new_pts det des tmpl skp' sd' tkp' td' now = Inr s \<longrightarrow>
        (\<exists>box'. Track_init img box' now = Inr (track.truncate s) \<and> getBB s = box'))"
proof (intro conjI impI)
  assume a: "SURFTrack_init kmeans img new_pts det des tmpl skp' sd' tkp' td' now = Inr s"
  from SURFTrack_init_base [OF a]
  obtain b where b: "Track_init img b now = Inr (track.truncate s)" ..
  from Track_init_attrs(1) [OF b] have "getBB s = b"
    by (simp add: track.defs getBB_def)
  with b show "\<exists>box'. Track_init img box' now = Inr (track.truncate s) \<and> getBB s = box'"
    by blast
qed (auto simp: CAMShiftTrack_init_def LKTrack_init_def MFTrack_init_def and_then_eq_Inr
       getBB_def track.defs Track_init_Inr_iff)

text \<open>
  The four constructors on the box \<open>(100, 100, 50, 50)\<close>, and \<^verbatim>\<open>SURFTrack\<close> on two match points.
\<close>

theorem getBB_returns_box_witness:
  "(\<exists>t. Track_init \<lparr>size_tuple = (800, 600), pixels = ()\<rparr> [100, 100, 50, 50 :: int] 0 = Inr t
        \<and> getBB t = [100, 100, 50, 50])
   \<and> (\<exists>c. CAMShiftTrack_init \<lparr>size_tuple = (800, 600), pixels = ()\<rparr> [100, 100, 50, 50 :: int]
             () 0 = Inr c
        \<and> getBB c = [100, 100, 50, 50])
   \<and> (\<exists>l. LKTrack_init \<lparr>size_tuple = (800, 600), pixels = ()\<rparr> [100, 100, 50, 50 :: int]
             (Some [(1::int, 2::int)]) 0 = Inr l
        \<and> getBB l = [100, 100, 50, 50])
   \<and> (\<exists>m. MFTrack_init \<lparr>size_tuple = (800, 600), pixels = ()\<rparr> [100, 100, 50, 50 :: int]
             3 0 = Inr m
        \<and> getBB m = [100, 100, 50, 50])
   \<and> (\<exists>s. SURFTrack_init (\<lambda>ps. Inr (0::real, [0::nat], [(0::real, 0::real)]))
             \<lparr>size_tuple = (800, 600), pixels = ()\<rparr>
             [\<lparr>pt = (3 / 2, 5 / 2)\<rparr>, \<lparr>pt = (10, 7)\<rparr>] () ()
             \<lparr>size_tuple = (64, 48), pixels = ()\<rparr>
             ([] :: keypoint list) (Some ()) [] (Some ()) 0 = Inr s
        \<and> (\<exists>box'. Track_init \<lparr>size_tuple = (800, 600), pixels = ()\<rparr> box' 0
                     = Inr (track.truncate s)
                 \<and> getBB s = box'))"
proof -
  let ?I = "\<lparr>size_tuple = (800, 600), pixels = ()\<rparr>"
  let ?B = "[100, 100, 50, 50 :: int]"
  let ?km = "\<lambda>ps :: (real \<times> real) list. Inr (0::real, [0::nat], [(0::real, 0::real)]) :: error + _"
  let ?ps = "[\<lparr>pt = (3 / 2, 5 / 2)\<rparr>, \<lparr>pt = (10, 7)\<rparr>]"
  have "\<exists>s. SURFTrack_init ?km ?I ?ps () () \<lparr>size_tuple = (64, 48), pixels = ()\<rparr>
          ([] :: keypoint list) (Some ()) [] (Some ()) 0 = Inr s"
    by (rule SURFTrack_init_returns) simp_all
  then obtain s where s: "SURFTrack_init ?km ?I ?ps () () \<lparr>size_tuple = (64, 48), pixels = ()\<rparr>
          ([] :: keypoint list) (Some ()) [] (Some ()) 0 = Inr s" ..
  obtain t where t: "Track_init ?I ?B 0 = Inr t"
    by (simp add: Track_init_box4)
  obtain c where c: "CAMShiftTrack_init ?I ?B () 0 = Inr c"
    by (simp add: CAMShiftTrack_init_def Track_init_box4)
  obtain l where l: "LKTrack_init ?I ?B (Some [(1::int, 2::int)]) 0 = Inr l"
    by (simp add: LKTrack_init_def Track_init_box4)
  obtain m where m: "MFTrack_init ?I ?B 3 0 = Inr m"
    by (simp add: MFTrack_init_def Track_init_box4)
  note inst = getBB_returns_box [of ?I ?B 0 t "()" c "Some [(1::int, 2::int)]" l 3 m
      ?km ?ps "()" "()" "\<lparr>size_tuple = (64, 48), pixels = ()\<rparr>" "[] :: keypoint list"
      "Some ()" "[]" "Some ()" s]
  from inst t c l m
  have 1: "getBB t = ?B \<and> getBB c = ?B \<and> getBB l = ?B \<and> getBB m = ?B"
    by blast
  from inst s
  have 2: "\<exists>box'. Track_init ?I box' 0 = Inr (track.truncate s) \<and> getBB s = box'"
    by blast
  from 1 2 t c l m s show ?thesis by blast
qed

text \<open>
  Claim C9. \<^verbatim>\<open>processTrack(func)\<close> is \<^verbatim>\<open>func\<close> applied to the frame the track holds, the
  value of \<^verbatim>\<open>getImage()\<close>, for every track of every class and every \<^verbatim>\<open>func\<close>.
\<close>

theorem processTrack_applies_func:
  "processTrack self func = func (getImage self)"
  by (simp add: processTrack_def getImage_def)

text \<open>
  Claim C10. On a track that any of the five constructors has just returned, \<^verbatim>\<open>vel\<close>,
  \<^verbatim>\<open>rt_vel\<close>, \<^verbatim>\<open>predict_pt\<close> and \<^verbatim>\<open>state_pt\<close> are \<open>(0, 0)\<close>, and so are the values of
  \<^verbatim>\<open>getPredictionPoints\<close> and \<^verbatim>\<open>getCorrectedPoints\<close>.
\<close>

theorem fresh_track_points:
  "(Track_init img box now = Inr t \<longrightarrow>
      vel t = (0, 0) \<and> rt_vel t = (0, 0) \<and> predict_pt t = (0, 0) \<and> state_pt t = (0, 0)
      \<and> getPredictionPoints t = (0, 0) \<and> getCorrectedPoints t = (0, 0))
   \<and> (CAMShiftTrack_init img box e now = Inr c \<longrightarrow>
      vel c = (0, 0) \<and> rt_vel c = (0, 0) \<and> predict_pt c = (0, 0) \<and> state_pt c = (0, 0)
      \<and> getPredictionPoints c = (0, 0) \<and> getCorrectedPoints c = (0, 0))
   \<and> (LKTrack_init img box ps now = Inr l \<longrightarrow>
      vel l = (0, 0) \<and> rt_vel l = (0, 0) \<and> predict_pt l = (0, 0) \<and> state_pt l = (0, 0)
      \<and> getPredictionPoints l = (0, 0) \<and> getCorrectedPoints l = (0, 0))
   \<and> (MFTrack_init img box sh now = Inr m \<longrightarrow>
      vel m = (0, 0) \<and> rt_vel m = (0, 0) \<and> predict_pt m = (0, 0) \<and> state_pt m = (0, 0)
      \<and> getPredictionPoints m = (0, 0) \<and> getCorrectedPoints m = (0, 0))
   \<and> (SURFTrack_init kmeans img new_pts det des tmpl skp' sd' tkp' td' now = Inr s \<longrightarrow>
      vel s = (0, 0) \<and> rt_vel s = (0, 0) \<and> predict_pt s = (0, 0) \<and> state_pt s = (0, 0)
      \<and> getPredictionPoints s = (0, 0) \<and> getCorrectedPoints s = (0, 0))"
proof (intro conjI impI)
  assume a: "SURFTrack_init kmeans img new_pts det des tmpl skp' sd' tkp' td' now = Inr s"
  from SURFTrack_init_base [OF a]
  obtain b where "Track_init img b now = Inr (track.truncate s)" ..
  from Track_init_attrs(3-6) [OF this]
  have "vel s = (0, 0)" "rt_vel s = (0, 0)" "predict_pt s = (0, 0)" "state_pt s = (0, 0)"
    by (simp_all add: track.defs)
  then show "vel s = (0, 0)" "rt_vel s = (0, 0)" "predict_pt s = (0, 0)" "state_pt s = (0, 0)"
    "getPredictionPoints s = (0, 0)" "getCorrectedPoints s = (0, 0)"
    by (simp_all add: getPredictionPoints_def getCorrectedPoints_def)
qed (auto simp: CAMShiftTrack_init_def LKTrack_init_def MFTrack_init_def and_then_eq_Inr
       getPredictionPoints_def getCorrectedPoints_def track.defs Track_init_Inr_iff)

text \<open>
  One track of each class: the box \<open>(100, 100, 50, 50)\<close>, and for \<^verbatim>\<open>SURFTrack\<close> two match
  points with both descriptors present.
\<close>

theorem fresh_track_points_witness:
  "(\<exists>t. Track_init \<lparr>size_tuple = (800, 600), pixels = ()\<rparr> [100, 100, 50, 50 :: int] 0 = Inr t
        \<and> vel t = (0, 0) \<and> rt_vel t = (0, 0) \<and> predict_pt t = (0, 0) \<and> state_pt t = (0, 0)
        \<and> getPredictionPoints t = (0, 0) \<and> getCorrectedPoints t = (0, 0))
   \<and> (\<exists>c. CAMShiftTrack_init \<lparr>size_tuple = (800, 600), pixels = ()\<rparr> [100, 100, 50, 50 :: int]
             () 0 = Inr c
        \<and> vel c = (0, 0) \<and> rt_vel c = (0, 0) \<and> predict_pt c = (0, 0) \<and> state_pt c = (0, 0)
        \<and> getPredictionPoints c = (0, 0) \<and> getCorrectedPoints c = (0, 0))
   \<and> (\<exists>l. LKTrack_init \<lparr>size_tuple = (800, 600), pixels = ()\<rparr> [100, 100, 50, 50 :: int]
             (Some [(1::int, 2::int)]) 0 = Inr l
        \<and> vel l = (0, 0) \<and> rt_vel l = (0, 0) \<and> predict_pt l = (0, 0) \<and> state_pt l = (0, 0)
        \<and> getPredictionPoints l = (0, 0) \<and> getCorrectedPoints l = (0, 0))
   \<and> (\<exists>m. MFTrack_init \<lparr>size_tuple = (800, 600), pixels = ()\<rparr> [100, 100, 50, 50 :: int]
             3 0 = Inr m
        \<and> vel m = (0, 0) \<and> rt_vel m = (0, 0) \<and> predict_pt m = (0, 0) \<and> state_pt m = (0, 0)
        \<and> getPredictionPoints m = (0, 0) \<and> getCorrectedPoints m = (0, 0))
   \<and> (\<exists>s. SURFTrack_init (\<lambda>ps. Inr (0::real, [0::nat], [(0::real, 0::real)]))
             \<lparr>size_tuple = (800, 600), pixels = ()\<rparr>
             [\<lparr>pt = (3 / 2, 5 / 2)\<rparr>, \<lparr>pt = (10, 7)\<rparr>] () ()
             \<lparr>size_tuple = (64, 48), pixels = ()\<rparr>
             ([] :: keypoint list) (Some ()) [] (Some ()) 0 = Inr s
        \<and> vel s = (0, 0) \<and> rt_vel s = (0, 0) \<and> predict_pt s = (0, 0) \<and> state_pt s = (0, 0)
        \<and> getPredictionPoints s = (0, 0) \<and> getCorrectedPoints s = (0, 0))"
proof -
  let ?I = "\<lparr>size_tuple = (800, 600), pixels = ()\<rparr>"
  let ?B = "[100, 100, 50, 50 :: int]"
  let ?km = "\<lambda>ps :: (real \<times> real) list. Inr (0::real, [0::nat], [(0::real, 0::real)]) :: error + _"
  let ?ps = "[\<lparr>pt = (3 / 2, 5 / 2)\<rparr>, \<lparr>pt = (10, 7)\<rparr>]"
  obtain t where t: "Track_init ?I ?B 0 = Inr t"
    by (simp add: Track_init_box4)
  obtain c where c: "CAMShiftTrack_init ?I ?B () 0 = Inr c"
    by (simp add: CAMShiftTrack_init_def Track_init_box4)
  obtain l where l: "LKTrack_init ?I ?B (Some [(1::int, 2::int)]) 0 = Inr l"
    by (simp add: LKTrack_init_def Track_init_box4)
  obtain m where m: "MFTrack_init ?I ?B 3 0 = Inr m"
    by (simp add: MFTrack_init_def Track_init_box4)
  have "\<exists>s. SURFTrack_init ?km ?I ?ps () () \<lparr>size_tuple = (64, 48), pixels = ()\<rparr>
          ([] :: keypoint list) (Some ()) [] (Some ()) 0 = Inr s"
    by (rule SURFTrack_init_returns) simp_all
  then obtain s where s: "SURFTrack_init ?km ?I ?ps () () \<lparr>size_tuple = (64, 48), pixels = ()\<rparr>
          ([] :: keypoint list) (Some ()) [] (Some ()) 0 = Inr s" ..
  note inst = fresh_track_points [of ?I ?B 0 t "()" c "Some [(1::int, 2::int)]" l 3 m
      ?km ?ps "()" "()" "\<lparr>size_tuple = (64, 48), pixels = ()\<rparr>" "[] :: keypoint list"
      "Some ()" "[]" "Some ()" s]
  from inst t have 1: "\<exists>t. Track_init ?I ?B 0 = Inr t
        \<and> vel t = (0, 0) \<and> rt_vel t = (0, 0) \<and> predict_pt t = (0, 0) \<and> state_pt t = (0, 0)
        \<and> getPredictionPoints t = (0, 0) \<and> getCorrectedPoints t = (0, 0)" by blast
  from inst c have 2: "\<exists>c. CAMShiftTrack_init ?I ?B () 0 = Inr c
        \<and> vel c = (0, 0) \<and> rt_vel c = (0, 0) \<and> predict_pt c = (0, 0) \<and> state_pt c = (0, 0)
        \<and> getPredictionPoints c = (0, 0) \<and> getCorrectedPoints c = (0, 0)" by blast
  from inst l have 3: "\<exists>l. LKTrack_init ?I ?B (Some [(1::int, 2::int)]) 0 = Inr l
        \<and> vel l = (0, 0) \<and> rt_vel l = (0, 0) \<and> predict_pt l = (0, 0) \<and> state_pt l = (0, 0)
        \<and> getPredictionPoints l = (0, 0) \<and> getCorrectedPoints l = (0, 0)" by blast
  from inst m have 4: "\<exists>m. MFTrack_init ?I ?B 3 0 = Inr m
        \<and> vel m = (0, 0) \<and> rt_vel m = (0, 0) \<and> predict_pt m = (0, 0) \<and> state_pt m = (0, 0)
        \<and> getPredictionPoints m = (0, 0) \<and> getCorrectedPoints m = (0, 0)" by blast
  from inst s have 5: "\<exists>s. SURFTrack_init ?km ?I ?ps () () \<lparr>size_tuple = (64, 48), pixels = ()\<rparr>
          ([] :: keypoint list) (Some ()) [] (Some ()) 0 = Inr s
        \<and> vel s = (0, 0) \<and> rt_vel s = (0, 0) \<and> predict_pt s = (0, 0) \<and> state_pt s = (0, 0)
        \<and> getPredictionPoints s = (0, 0) \<and> getCorrectedPoints s = (0, 0)" by blast
  from 1 2 3 4 5 show ?thesis by (intro conjI)
qed

text \<open>
  Claim C8. Each text overlay sets the font size and writes its text: the coordinates through
  \<^verbatim>\<open>%d\<close>, the size ratio through \<^verbatim>\<open>%f\<close>, the velocities and the shift through \<^verbatim>\<open>%.2f\<close>. The
  font size is 16 when \<^verbatim>\<open>size\<close> is not supplied (or is 0), the colour is green when \<^verbatim>\<open>color\<close> is
  not supplied, and the position, when \<^verbatim>\<open>pos\<close> is not supplied, is 120 left of the frame's
  width at height 10, 30, 90, 50 and 50 for \<^verbatim>\<open>showCoordinates\<close>, \<^verbatim>\<open>showSizeRatio\<close>,
  \<^verbatim>\<open>showPixelVelocity\<close>, \<^verbatim>\<open>showPixelVelocityRT\<close> and \<^verbatim>\<open>showShift\<close>; the last three write
  their unit one font size lower. On a frame of 800 by 600 with the box
  \<open>(100, 100, 50, 50)\<close> the centre is \<open>(125, 125)\<close>, the area 2500, and \<^verbatim>\<open>showCoordinates()\<close>
  writes at \<open>(680, 10)\<close>.
\<close>

theorem text_overlays:
  "showCoordinates fmt t pos color size' =
     [Set_font_size (if or_default 0 size' = 0 then 16 else or_default 0 size'),
      Text (fmt ''x = %d  y = %d'' [x t, y t])
        (or_default (fst (size_tuple (getImage t)) - 120, 10) pos) (or_default GREEN color)]
   \<and> showSizeRatio fmt t pos color size' =
     [Set_font_size (if or_default 0 size' = 0 then 16 else or_default 0 size'),
      Text (fmt ''size = %f'' [sizeRatio t])
        (or_default (fst (size_tuple (getImage t)) - 120, 30) pos) (or_default GREEN color)]
   \<and> showPixelVelocity fmt t pos color size' =
     (let p = or_default (fst (size_tuple (getImage t)) - 120, 90) pos;
          s = (if or_default 0 size' = 0 then 16 else or_default 0 size')
      in [Set_font_size s,
          Text (fmt ''Vx = %.2f Vy = %.2f'' [fst (vel t), snd (vel t)]) p (or_default GREEN color),
          Text ''in pixels/frame'' (fst p, snd p + s) (or_default GREEN color)])
   \<and> showPixelVelocityRT fmt t pos color size' =
     (let p = or_default (fst (size_tuple (getImage t)) - 120, 50) pos;
          s = (if or_default 0 size' = 0 then 16 else or_default 0 size')
      in [Set_font_size s,
          Text (fmt ''Vx = %.2f Vy = %.2f'' [fst (rt_vel t), snd (rt_vel t)]) p
            (or_default GREEN color),
          Text ''in pixels/second'' (fst p, snd p + s) (or_default GREEN color)])
   \<and> showShift fmt m pos color size' =
     (let p = or_default (fst (size_tuple (getImage m)) - 120, 50) pos;
          s = (if or_default 0 size' = 0 then 16 else or_default 0 size')
      in [Set_font_size s,
          Text (fmt ''Shift = %.2f'' [getShift m]) p (or_default GREEN color),
          Text ''in pixels/second'' (fst p, snd p + s) (or_default GREEN color)])
   \<and> (\<exists>t0. Track_init \<lparr>size_tuple = (800, 600), pixels = px\<rparr> [100, 100, 50, 50 :: int] now
               = Inr t0
          \<and> center t0 = (125, 125) \<and> area t0 = 2500
          \<and> showCoordinates fmt0 t0 None None None =
               [Set_font_size 16, Text (fmt0 ''x = %d  y = %d'' [125, 125]) (680, 10) GREEN])"
  by (cases pos; cases color; cases size')
     (simp_all add: showCoordinates_def showSizeRatio_def showPixelVelocity_def
        showPixelVelocityRT_def showShift_def getImage_def getShift_def Let_def
        Track_init_box4 area_def)

subsection \<open>Drawing the tracked points\<close>

text \<open>
  Claim C6. An \<^verbatim>\<open>LKTrack\<close> or \<^verbatim>\<open>SURFTrack\<close> without tracked points should make no call on the
  drawing layer in \<^verbatim>\<open>drawTrackerPoints\<close> and should not raise. The code breaks this on the
  \<^verbatim>\<open>SURFTrack\<close> that its own constructor builds when the template descriptor is \<^verbatim>\<open>None\<close>: that
  branch returns without assigning \<^verbatim>\<open>self.pts\<close>, where the two sibling branches assign \<^verbatim>\<open>None\<close>,
  and \<^verbatim>\<open>drawTrackerPoints\<close>, whose guard \<^verbatim>\<open>self.pts is not None\<close> expects that value, raises
  \<^verbatim>\<open>AttributeError\<close> on reading the attribute. Here the constructor is run with no match point,
  no image descriptor and no template descriptor, and the method is called with no argument.
\<close>

theorem drawTrackerPoints_no_template_raises:
  "\<exists>s. SURFTrack_init (\<lambda>ps. Inr (0::real, [0::nat], [(0::real, 0::real)]))
          \<lparr>size_tuple = (800, 600), pixels = ()\<rparr> [] () ()
          \<lparr>size_tuple = (64, 48), pixels = ()\<rparr>
          ([] :: keypoint list) (None :: unit option) [] None 0 = Inr s
     \<and> surf_track.pts s = Unset
     \<and> SURFTrack_getTrackedPoints s = Inl AttributeError
     \<and> SURFTrack_drawTrackerPoints s None None None = Inl AttributeError"
  by (simp add: SURFTrack_init_no_template Track_init_box4 SURFTrack_bare_def track.defs
        surf_track.defs SURFTrack_drawTrackerPoints_def SURFTrack_getTrackedPoints_def)

text \<open>
  The same holds for every \<^verbatim>\<open>SURFTrack\<close> constructed with \<^verbatim>\<open>td\<close> \<^verbatim>\<open>None\<close>, whatever the other
  arguments of the constructor and of the method.
\<close>

lemma SURFTrack_unset_points_raise:
  assumes "SURFTrack_init kmeans img new_pts det des tmpl skp' sd' tkp' None now = Inr self"
  shows "SURFTrack_drawTrackerPoints self color radius thickness = Inl AttributeError"
    and "SURFTrack_getTrackedPoints self = Inl AttributeError"
  using assms
  by (auto simp: SURFTrack_init_no_template and_then_eq_Inr SURFTrack_bare_def track.defs
        surf_track.defs SURFTrack_drawTrackerPoints_def SURFTrack_getTrackedPoints_def)

text \<open>
  Where \<^verbatim>\<open>pts\<close> is assigned, the methods do what is expected of them: no call and no exception
  when it is \<^verbatim>\<open>None\<close> or empty, one circle for each point, in order, otherwise. An
  \<^verbatim>\<open>LKTrack\<close> always has the attribute.
\<close>

lemma drawTrackerPoints_without_points:
  "(lk_track.pts l = None \<or> lk_track.pts l = Some [] \<longrightarrow>
      LKTrack_drawTrackerPoints l color radius thickness = [])
   \<and> (surf_track.pts s = Stored None \<or> surf_track.pts s = Stored (Some []) \<longrightarrow>
      SURFTrack_drawTrackerPoints s color radius thickness = Inr [])"
  by (auto simp: LKTrack_drawTrackerPoints_def SURFTrack_drawTrackerPoints_def)

lemma LKTrack_drawTrackerPoints_constructed:
  assumes "LKTrack_init img box ps now = Inr l"
  shows "lk_track.pts l = ps"
    and "ps = None \<or> ps = Some [] \<Longrightarrow> LKTrack_drawTrackerPoints l color radius thickness = []"
  using assms
  by (auto simp: LKTrack_init_def and_then_eq_Inr track.defs lk_track.defs
        LKTrack_drawTrackerPoints_def)

lemma SURFTrack_drawTrackerPoints_degenerate:
  assumes "SURFTrack_init kmeans img new_pts det des tmpl skp' sd' tkp' td' now = Inr self"
    and "td' \<noteq> None" and "new_pts = [] \<or> sd' = None"
  shows "SURFTrack_drawTrackerPoints self color radius thickness = Inr []"
  using assms
  by (auto simp: SURFTrack_init_degenerate and_then_eq_Inr SURFTrack_bare_def track.defs
        SURFTrack_drawTrackerPoints_def)

lemma drawTrackerPoints_one_circle_per_point:
  "lk_track.pts l = Some ps \<Longrightarrow>
     LKTrack_drawTrackerPoints l None None None = map (\<lambda>p. Circle p 1 GREEN 1) ps"
  "surf_track.pts s = Stored (Some qs) \<Longrightarrow>
     SURFTrack_drawTrackerPoints s None None None = Inr (map (\<lambda>p. Circle p 1 GREEN 1) qs)"
  by (simp_all add: LKTrack_drawTrackerPoints_def SURFTrack_drawTrackerPoints_def)

subsection \<open>SURFTrack\<close>

text \<open>
  Claim C2. When the template descriptor \<^verbatim>\<open>td\<close> is \<^verbatim>\<open>None\<close>, the constructor returns, whatever
  its other arguments: the box is \<open>(1, 1, 1, 1)\<close>, the frame is the one given, and none of
  \<^verbatim>\<open>pts\<close>, \<^verbatim>\<open>detector\<close>, \<^verbatim>\<open>descriptor\<close>, \<^verbatim>\<open>templateImg\<close>, \<^verbatim>\<open>skp\<close>, \<^verbatim>\<open>sd\<close>, \<^verbatim>\<open>tkp\<close>, \<^verbatim>\<open>td\<close> is
  assigned.
\<close>

theorem SURFTrack_no_template:
  "\<exists>self. SURFTrack_init kmeans img new_pts det des tmpl skp' sd' tkp' None now = Inr self
     \<and> getBB self = [1, 1, 1, 1]
     \<and> getImage self = img
     \<and> surf_track.pts self = Unset
     \<and> detector self = Unset \<and> descriptor self = Unset
     \<and> templateImg self = Unset
     \<and> skp self = Unset \<and> sd self = Unset
     \<and> tkp self = Unset \<and> td self = Unset"
  by (simp add: SURFTrack_init_no_template Track_init_box4 SURFTrack_bare_def track.defs
        surf_track.defs getBB_def getImage_def)

text \<open>
  Claim C3. When \<^verbatim>\<open>td\<close> is not \<^verbatim>\<open>None\<close> and either \<^verbatim>\<open>new_pts\<close> has fewer than one element or
  \<^verbatim>\<open>sd\<close> is \<^verbatim>\<open>None\<close>, the constructor returns a track with the box \<open>(1, 1, 1, 1)\<close>, with \<^verbatim>\<open>pts\<close>
  assigned \<^verbatim>\<open>None\<close>, and with the detector, the descriptor extractor, the template image,
  both key point collections and both descriptors assigned the arguments.
\<close>

theorem SURFTrack_degenerate:
  assumes "td' \<noteq> None" and "length new_pts < 1 \<or> sd' = None"
  shows "\<exists>self. SURFTrack_init kmeans img new_pts det des tmpl skp' sd' tkp' td' now = Inr self
     \<and> getBB self = [1, 1, 1, 1]
     \<and> surf_track.pts self = Stored None
     \<and> detector self = Stored det \<and> descriptor self = Stored des
     \<and> templateImg self = Stored tmpl
     \<and> skp self = Stored skp' \<and> sd self = Stored sd'
     \<and> tkp self = Stored tkp' \<and> td self = Stored td'"
proof -
  from assms(2) have "new_pts = [] \<or> sd' = None" by auto
  with assms(1) show ?thesis
    by (simp add: SURFTrack_init_degenerate Track_init_box4 SURFTrack_bare_def track.defs
          getBB_def)
qed

text \<open>Once with no match point, once with a match point and no image descriptor.\<close>

theorem SURFTrack_degenerate_witness:
  "(\<exists>self. SURFTrack_init (\<lambda>ps. Inr (0::real, [0::nat], [(0::real, 0::real)]))
             \<lparr>size_tuple = (800, 600), pixels = ()\<rparr> [] (1::nat) (2::nat)
             \<lparr>size_tuple = (64, 48), pixels = ()\<rparr>
             [\<lparr>pt = (1, 2)\<rparr>] (Some ()) [\<lparr>pt = (3, 4)\<rparr>] (Some ()) 0 = Inr self
     \<and> getBB self = [1, 1, 1, 1]
     \<and> surf_track.pts self = Stored None
     \<and> detector self = Stored 1 \<and> descriptor self = Stored 2
     \<and> templateImg self = Stored \<lparr>size_tuple = (64, 48), pixels = ()\<rparr>
     \<and> skp self = Stored [\<lparr>pt = (1, 2)\<rparr>] \<and> sd self = Stored (Some ())
     \<and> tkp self = Stored [\<lparr>pt = (3, 4)\<rparr>] \<and> td self = Stored (Some ()))
   \<and> (\<exists>self. SURFTrack_init (\<lambda>ps. Inr (0::real, [0::nat], [(0::real, 0::real)]))
             \<lparr>size_tuple = (800, 600), pixels = ()\<rparr> [\<lparr>pt = (3 / 2, 5 / 2)\<rparr>] (1::nat) (2::nat)
             \<lparr>size_tuple = (64, 48), pixels = ()\<rparr>
             [\<lparr>pt = (1, 2)\<rparr>] None [\<lparr>pt = (3, 4)\<rparr>] (Some ()) 0 = Inr self
     \<and> getBB self = [1, 1, 1, 1]
     \<and> surf_track.pts self = Stored None
     \<and> detector self = Stored 1 \<and> descriptor self = Stored 2
     \<and> templateImg self = Stored \<lparr>size_tuple = (64, 48), pixels = ()\<rparr>
     \<and> skp self = Stored [\<lparr>pt = (1, 2)\<rparr>] \<and> sd self = Stored None
     \<and> tkp self = Stored [\<lparr>pt = (3, 4)\<rparr>] \<and> td self = Stored (Some ()))"
proof (rule conjI)
  have h1: "Some () \<noteq> None" by simp
  have h2: "length ([] :: keypoint list) < 1 \<or> Some () = None" by simp
  show "\<exists>self. SURFTrack_init (\<lambda>ps. Inr (0::real, [0::nat], [(0::real, 0::real)]))
             \<lparr>size_tuple = (800, 600), pixels = ()\<rparr> [] (1::nat) (2::nat)
             \<lparr>size_tuple = (64, 48), pixels = ()\<rparr>
             [\<lparr>pt = (1, 2)\<rparr>] (Some ()) [\<lparr>pt = (3, 4)\<rparr>] (Some ()) 0 = Inr self
     \<and> getBB self = [1, 1, 1, 1]
     \<and> surf_track.pts self = Stored None
     \<and> detector self = Stored 1 \<and> descriptor self = Stored 2
     \<and> templateImg self = Stored \<lparr>size_tuple = (64, 48), pixels = ()\<rparr>
     \<and> skp self = Stored [\<lparr>pt = (1, 2)\<rparr>] \<and> sd self = Stored (Some ())
     \<and> tkp self = Stored [\<lparr>pt = (3, 4)\<rparr>] \<and> td self = Stored (Some ())"
    by (rule SURFTrack_degenerate [OF h1 h2])
next
  have h1: "Some () \<noteq> None" by simp
  have h2: "length [\<lparr>pt = (3 / 2, 5 / 2)\<rparr>] < 1 \<or> (None :: unit option) = None" by simp
  show "\<exists>self. SURFTrack_init (\<lambda>ps. Inr (0::real, [0::nat], [(0::real, 0::real)]))
             \<lparr>size_tuple = (800, 600), pixels = ()\<rparr> [\<lparr>pt = (3 / 2, 5 / 2)\<rparr>] (1::nat) (2::nat)
             \<lparr>size_tuple = (64, 48), pixels = ()\<rparr>
             [\<lparr>pt = (1, 2)\<rparr>] None [\<lparr>pt = (3, 4)\<rparr>] (Some ()) 0 = Inr self
     \<and> getBB self = [1, 1, 1, 1]
     \<and> surf_track.pts self = Stored None
     \<and> detector self = Stored 1 \<and> descriptor self = Stored 2
     \<and> templateImg self = Stored \<lparr>size_tuple = (64, 48), pixels = ()\<rparr>
     \<and> skp self = Stored [\<lparr>pt = (1, 2)\<rparr>] \<and> sd self = Stored None
     \<and> tkp self = Stored [\<lparr>pt = (3, 4)\<rparr>] \<and> td self = Stored (Some ())"
    by (rule SURFTrack_degenerate [OF h1 h2])
qed

text \<open>
  Claim C1, as amended. A \<^verbatim>\<open>SURFTrack\<close> constructed with \<^verbatim>\<open>td\<close> not \<^verbatim>\<open>None\<close>, at least one match
  point and \<^verbatim>\<open>sd\<close> not \<^verbatim>\<open>None\<close> has the box
  \<open>(min_x - 5, min_y - 5, max_x - min_x + 5, max_y - min_y + 5)\<close>, where \<open>min_x\<close>, \<open>max_x\<close>,
  \<open>min_y\<close> and \<open>max_y\<close> are the least and greatest x and y coordinates of the match points,
  each truncated toward zero to an int (\<^verbatim>\<open>int(...)\<close>) before the arithmetic. The detector, the
  descriptor extractor, the template image, both key point collections and both descriptors
  are stored as given, and \<^verbatim>\<open>pts\<close> is the array of the match points' coordinates, not
  truncated.
\<close>

theorem SURFTrack_valid_box:
  assumes "SURFTrack_init kmeans img new_pts det des tmpl skp' sd' tkp' td' now = Inr self"
    and "td' \<noteq> None" and "new_pts \<noteq> []" and "sd' \<noteq> None"
  shows "getBB self =
           (let min_x = py_int (Min (fst ` pt ` set new_pts));
                max_x = py_int (Max (fst ` pt ` set new_pts));
                min_y = py_int (Min (snd ` pt ` set new_pts));
                max_y = py_int (Max (snd ` pt ` set new_pts))
            in [min_x - 5, min_y - 5, max_x - min_x + 5, max_y - min_y + 5])
         \<and> surf_track.pts self = Stored (Some (map pt new_pts))
         \<and> detector self = Stored det \<and> descriptor self = Stored des
         \<and> templateImg self = Stored tmpl
         \<and> skp self = Stored skp' \<and> sd self = Stored sd'
         \<and> tkp self = Stored tkp' \<and> td self = Stored td'"
  using assms
  by (auto simp: SURFTrack_init_valid and_then_eq_Inr SURFTrack_bare_def track.defs getBB_def
        dest: Track_init_attrs(1))

text \<open>
  Two match points, at \<open>(1.5, 2.5)\<close> and \<open>(10, 7)\<close>: the truncated extent is 1 to 10 and 2 to
  7, the box \<open>(-4, -3, 14, 10)\<close>.
\<close>

theorem SURFTrack_valid_box_witness:
  "\<exists>self. SURFTrack_init (\<lambda>ps. Inr (0::real, [0::nat], [(0::real, 0::real)]))
             \<lparr>size_tuple = (800, 600), pixels = ()\<rparr>
             [\<lparr>pt = (3 / 2, 5 / 2)\<rparr>, \<lparr>pt = (10, 7)\<rparr>] () ()
             \<lparr>size_tuple = (64, 48), pixels = ()\<rparr>
             ([] :: keypoint list) (Some ()) [] (Some ()) 0 = Inr self
         \<and> getBB self = [- 4, - 3, 14, 10]
         \<and> surf_track.pts self = Stored (Some [(3 / 2, 5 / 2), (10, 7)])
         \<and> detector self = Stored () \<and> descriptor self = Stored ()
         \<and> templateImg self = Stored \<lparr>size_tuple = (64, 48), pixels = ()\<rparr>
         \<and> skp self = Stored [] \<and> sd self = Stored (Some ())
         \<and> tkp self = Stored [] \<and> td self = Stored (Some ())"
proof -
  let ?km = "\<lambda>ps :: (real \<times> real) list. Inr (0::real, [0::nat], [(0::real, 0::real)]) :: error + _"
  let ?ps = "[\<lparr>pt = (3 / 2, 5 / 2)\<rparr>, \<lparr>pt = (10, 7)\<rparr>]"
  obtain self where
    s: "SURFTrack_init ?km \<lparr>size_tuple = (800, 600), pixels = ()\<rparr> ?ps () ()
          \<lparr>size_tuple = (64, 48), pixels = ()\<rparr> ([] :: keypoint list) (Some ()) [] (Some ()) 0
        = Inr self"
  proof -
    have "\<exists>self. SURFTrack_init ?km \<lparr>size_tuple = (800, 600), pixels = ()\<rparr> ?ps () ()
          \<lparr>size_tuple = (64, 48), pixels = ()\<rparr> ([] :: keypoint list) (Some ()) [] (Some ()) 0
        = Inr self"
      by (rule SURFTrack_init_returns) simp_all
    then show ?thesis using that by blast
  qed
  from SURFTrack_valid_box [OF s] have
    "getBB self = [- 4, - 3, 14, 10]
         \<and> surf_track.pts self = Stored (Some [(3 / 2, 5 / 2), (10, 7)])
         \<and> detector self = Stored () \<and> descriptor self = Stored ()
         \<and> templateImg self = Stored \<lparr>size_tuple = (64, 48), pixels = ()\<rparr>
         \<and> skp self = Stored [] \<and> sd self = Stored (Some ())
         \<and> tkp self = Stored [] \<and> td self = Stored (Some ())"
    by (simp add: py_int_def)
  with s show ?thesis by blast
qed

text \<open>
  Claim C1 as the specification states it, with the extent taken over the coordinates
  themselves, fails where a coordinate is not a whole number. For the single match point
  \<open>(1.5, 2.5)\<close> the constructor computes \<open>int(1.5) = 1\<close> and \<open>int(2.5) = 2\<close> and stores the box
  \<open>(-4, -3, 5, 5)\<close>; the stated formula gives \<open>(-3.5, -2.5, 5, 5)\<close>.
\<close>

theorem SURFTrack_box_counterexample:
  "map_sum id (map real_of_int \<circ> getBB)
     (SURFTrack_init (\<lambda>ps. Inr (0::real, [0::nat], [(0::real, 0::real)]))
        \<lparr>size_tuple = (800, 600), pixels = ()\<rparr>
        [\<lparr>pt = (3 / 2, 5 / 2)\<rparr>] () ()
        \<lparr>size_tuple = (64, 48), pixels = ()\<rparr>
        ([] :: keypoint list) (Some ()) [] (Some ()) 0)
     = Inr [- 4, - 3, 5, 5]
   \<and> claimed_box (map pt [\<lparr>pt = (3 / 2, 5 / 2)\<rparr>]) = [- 7 / 2, - 5 / 2, 5, 5]
   \<and> map_sum id (map real_of_int \<circ> getBB)
     (SURFTrack_init (\<lambda>ps. Inr (0::real, [0::nat], [(0::real, 0::real)]))
        \<lparr>size_tuple = (800, 600), pixels = ()\<rparr>
        [\<lparr>pt = (3 / 2, 5 / 2)\<rparr>] () ()
        \<lparr>size_tuple = (64, 48), pixels = ()\<rparr>
        ([] :: keypoint list) (Some ()) [] (Some ()) 0)
     \<noteq> Inr (claimed_box (map pt [\<lparr>pt = (3 / 2, 5 / 2)\<rparr>]))"
  by (simp add: SURFTrack_init_valid Track_init_box4 SURFTrack_bare_def track.defs getBB_def
        py_int_def claimed_box_def)

text \<open>
  Where every coordinate of every match point is a whole number, truncation changes nothing
  and the box is the one the specification states.
\<close>

lemma SURFTrack_integral_box:
  assumes "SURFTrack_init kmeans img new_pts det des tmpl skp' sd' tkp' td' now = Inr self"
    and "td' \<noteq> None" and "new_pts \<noteq> []" and "sd' \<noteq> None"
    and "\<forall>p \<in> set new_pts. fst (pt p) \<in> \<int> \<and> snd (pt p) \<in> \<int>"
  shows "map real_of_int (getBB self) = claimed_box (map pt new_pts)"
proof -
  have fin: "finite (fst ` pt ` set new_pts)" "finite (snd ` pt ` set new_pts)" by simp_all
  have ne: "fst ` pt ` set new_pts \<noteq> {}" "snd ` pt ` set new_pts \<noteq> {}"
    using assms(3) by simp_all
  have sub: "fst ` pt ` set new_pts \<subseteq> \<int>" "snd ` pt ` set new_pts \<subseteq> \<int>"
    using assms(5) by auto
  have "Min (fst ` pt ` set new_pts) \<in> \<int>" "Max (fst ` pt ` set new_pts) \<in> \<int>"
       "Min (snd ` pt ` set new_pts) \<in> \<int>" "Max (snd ` pt ` set new_pts) \<in> \<int>"
    using Min_in [OF fin(1) ne(1)] Max_in [OF fin(1) ne(1)]
          Min_in [OF fin(2) ne(2)] Max_in [OF fin(2) ne(2)] sub by auto
  then show ?thesis
    using assms(1-4)
    by (auto simp: SURFTrack_init_valid and_then_eq_Inr SURFTrack_bare_def track.defs getBB_def
          Track_init_Inr_iff Let_def claimed_box_def of_int_py_int image_image)
qed

text \<open>
  Claim C7. On valid input (\<^verbatim>\<open>td\<close> and \<^verbatim>\<open>sd\<close> not \<^verbatim>\<open>None\<close>, at least one match point) the
  constructed track does not depend on what the k-means call returns: any two k-means routines
  that return on the points, whatever compactness, labels and centres they return, give the same
  \<^verbatim>\<open>SURFTrack\<close>, and its box is the truncated min/max extent of the match points' coordinates
  with the margin of 5.
\<close>

theorem SURFTrack_ignores_kmeans:
  assumes "td' \<noteq> None" and "new_pts \<noteq> []" and "sd' \<noteq> None"
    and "kmeans1 (map pt new_pts) = Inr k1" and "kmeans2 (map pt new_pts) = Inr k2"
  shows "SURFTrack_init kmeans1 img new_pts det des tmpl skp' sd' tkp' td' now =
           SURFTrack_init kmeans2 img new_pts det des tmpl skp' sd' tkp' td' now
         \<and> (\<exists>self. SURFTrack_init kmeans1 img new_pts det des tmpl skp' sd' tkp' td' now = Inr self
               \<and> getBB self =
                  (let min_x = py_int (Min (fst ` pt ` set new_pts));
                       max_x = py_int (Max (fst ` pt ` set new_pts));
                       min_y = py_int (Min (snd ` pt ` set new_pts));
                       max_y = py_int (Max (snd ` pt ` set new_pts))
                   in [min_x - 5, min_y - 5, max_x - min_x + 5, max_y - min_y + 5]))"
  using assms
  by (simp add: SURFTrack_init_valid Let_def Track_init_box4 SURFTrack_bare_def track.defs
        getBB_def)

text \<open>
  Two k-means results that differ in every component, on the match points \<open>(1.5, 2.5)\<close> and
  \<open>(10, 7)\<close>.
\<close>

theorem SURFTrack_ignores_kmeans_witness:
  "SURFTrack_init (\<lambda>ps. Inr (0::real, [0::nat], [(0::real, 0::real)]))
       \<lparr>size_tuple = (800, 600), pixels = ()\<rparr>
       [\<lparr>pt = (3 / 2, 5 / 2)\<rparr>, \<lparr>pt = (10, 7)\<rparr>] () ()
       \<lparr>size_tuple = (64, 48), pixels = ()\<rparr>
       ([] :: keypoint list) (Some ()) [] (Some ()) 0 =
   SURFTrack_init (\<lambda>ps. Inr (7::real, [1::nat], [(100::real, 250::real)]))
       \<lparr>size_tuple = (800, 600), pixels = ()\<rparr>
       [\<lparr>pt = (3 / 2, 5 / 2)\<rparr>, \<lparr>pt = (10, 7)\<rparr>] () ()
       \<lparr>size_tuple = (64, 48), pixels = ()\<rparr>
       ([] :: keypoint list) (Some ()) [] (Some ()) 0
   \<and> (\<exists>self. SURFTrack_init (\<lambda>ps. Inr (0::real, [0::nat], [(0::real, 0::real)]))
                \<lparr>size_tuple = (800, 600), pixels = ()\<rparr>
                [\<lparr>pt = (3 / 2, 5 / 2)\<rparr>, \<lparr>pt = (10, 7)\<rparr>] () ()
                \<lparr>size_tuple = (64, 48), pixels = ()\<rparr>
                ([] :: keypoint list) (Some ()) [] (Some ()) 0 = Inr self
          \<and> getBB self = [- 4, - 3, 14, 10])"
proof -
  let ?ps = "[\<lparr>pt = (3 / 2, 5 / 2)\<rparr>, \<lparr>pt = (10, 7)\<rparr>]"
  have h1: "Some () \<noteq> None" and h2: "?ps \<noteq> []" by simp_all
  have k1: "(\<lambda>ps :: (real \<times> real) list. Inr (0::real, [0::nat], [(0::real, 0::real)]) :: error + _)
              (map pt ?ps) = Inr (0, [0], [(0, 0)])" by simp
  have k2: "(\<lambda>ps :: (real \<times> real) list. Inr (7::real, [1::nat], [(100::real, 250::real)]) :: error + _)
              (map pt ?ps) = Inr (7, [1], [(100, 250)])" by simp
  note inst = SURFTrack_ignores_kmeans [OF h1 h2 h1 k1 k2,
        of "\<lparr>size_tuple = (800, 600), pixels = ()\<rparr>" "()" "()"
           "\<lparr>size_tuple = (64, 48), pixels = ()\<rparr>" "[] :: keypoint list" "[]" 0]
  from inst [THEN conjunct2]
  have "\<exists>self. SURFTrack_init (\<lambda>ps. Inr (0::real, [0::nat], [(0::real, 0::real)]))
                \<lparr>size_tuple = (800, 600), pixels = ()\<rparr> ?ps () ()
                \<lparr>size_tuple = (64, 48), pixels = ()\<rparr>
                ([] :: keypoint list) (Some ()) [] (Some ()) 0 = Inr self
          \<and> getBB self = [- 4, - 3, 14, 10]"
    by (simp add: py_int_def)
  with inst [THEN conjunct1] show ?thesis by (rule conjI)
qed

end
